theory Spec2Isabelle
  imports Main "HOL-Library.List_Lexorder" "HOL-Library.Char_ord"
begin

section \<open>The STAC catalog builder and validator\<close>

text \<open>
  The repository holds two scripts: \<^verbatim>\<open>make_catalog.py\<close> (the layout policy
  \<^verbatim>\<open>ItemInSubdirLayout\<close> and the builder \<^verbatim>\<open>create_and_save_catalog\<close>) and
  \<^verbatim>\<open>validate_catalog.py\<close> (the validator's \<^verbatim>\<open>main\<close>). Both are glue over the
  Python standard library and pystac. Strings are \<open>string\<close> (UTF-8 bytes); an exception
  is a value of \<open>exn\<close>; what depends on the installation (the platform's
  \<^verbatim>\<open>os.path.join\<close> and \<^verbatim>\<open>os.name\<close>, the host validation of the installed
  \<^verbatim>\<open>urllib\<close>) is a field of the record \<open>runtime\<close>.
\<close>

subsection \<open>Exceptions\<close>

text \<open>
  The handlers of both scripts tell \<^verbatim>\<open>FileNotFoundError\<close> from every other subclass of
  \<^verbatim>\<open>Exception\<close>; each value carries the text \<^verbatim>\<open>str(e)\<close>.
\<close>

datatype exn = FileNotFoundError string | Exception string

fun str_exn :: "exn \<Rightarrow> string" where
  "str_exn (FileNotFoundError m) = m"
| "str_exn (Exception m) = m"

subsection \<open>Standard library: string predicates, posixpath.join, urllib.parse\<close>

definition startswith :: "string \<Rightarrow> string \<Rightarrow> bool" where
  "startswith s p \<longleftrightarrow> take (length p) s = p"

definition endswith :: "string \<Rightarrow> string \<Rightarrow> bool" where
  "endswith s p \<longleftrightarrow> length p \<le> length s \<and> drop (length s - length p) s = p"

definition ascii_lowercase :: string where
  "ascii_lowercase = ''abcdefghijklmnopqrstuvwxyz''"

definition ascii_uppercase :: string where
  "ascii_uppercase = ''ABCDEFGHIJKLMNOPQRSTUVWXYZ''"

definition lower_char :: "char \<Rightarrow> char" where
  "lower_char c = (case map_of (zip ascii_uppercase ascii_lowercase) c of
                     Some l \<Rightarrow> l | None \<Rightarrow> c)"

definition lower :: "string \<Rightarrow> string" where
  "lower s = map lower_char s"

text \<open>
  \<^verbatim>\<open>posixpath.join(a, *p)\<close>: a component that starts with the separator discards what
  was joined before it; otherwise one separator is put between the parts unless the
  path so far is empty or already ends with one.
\<close>

definition join_step :: "string \<Rightarrow> string \<Rightarrow> string" where
  "join_step path b =
     (if startswith b ''/'' then b
      else if path = [] \<or> endswith path ''/'' then path @ b
      else path @ ''/'' @ b)"

definition posixpath_join :: "string \<Rightarrow> string list \<Rightarrow> string" where
  "posixpath_join a p = foldl join_step a p"

text \<open>
  What the scripts' behaviour takes from the Python installation: \<open>os_path_join\<close> is
  \<^verbatim>\<open>os.path.join\<close> (\<open>posixpath_join\<close> on a POSIX system), \<open>os_name\<close> is \<^verbatim>\<open>os.name\<close>,
  and \<open>host_error\<close> is the validation \<^verbatim>\<open>urlsplit\<close> applies, beyond the balance of the
  brackets, to a network location that has a bracketed host
  (\<^verbatim>\<open>_check_bracketed_host\<close>) or a character outside ASCII (\<^verbatim>\<open>_checknetloc\<close>), giving
  the message of the \<^verbatim>\<open>ValueError\<close> it raises.
\<close>

record runtime =
  os_path_join :: "string \<Rightarrow> string list \<Rightarrow> string"
  host_error :: "string \<Rightarrow> string option"
  os_name :: string

definition posix_runtime :: runtime where
  "posix_runtime =
     \<lparr>os_path_join = posixpath_join, host_error = (\<lambda>netloc. None), os_name = ''posix''\<rparr>"

record URLParseResult =
  scheme :: string
  netloc :: string
  path :: string
  params :: string
  query :: string
  fragment :: string

definition scheme_chars :: string where
  "scheme_chars = ascii_lowercase @ ascii_uppercase @ ''0123456789'' @ ''+-.''"

definition c0_control_or_space :: "char \<Rightarrow> bool" where
  "c0_control_or_space c \<longleftrightarrow> (of_char c :: nat) \<le> 32"

definition unsafe_url_byte :: "char \<Rightarrow> bool" where
  "unsafe_url_byte c \<longleftrightarrow> (of_char c :: nat) \<in> {9, 10, 13}"

text \<open>\<^verbatim>\<open>s.partition(c)\<close> without the separator: the text before the first \<open>c\<close> and the text after it.\<close>

definition split_first :: "char \<Rightarrow> string \<Rightarrow> string \<times> string" where
  "split_first c s = (takeWhile (\<lambda>x. x \<noteq> c) s, drop 1 (dropWhile (\<lambda>x. x \<noteq> c) s))"

text \<open>The scheme step of \<^verbatim>\<open>urlsplit\<close>: the lower-cased scheme and the rest of the text.\<close>

definition split_scheme :: "string \<Rightarrow> string \<times> string" where
  "split_scheme url =
     (let pre = takeWhile (\<lambda>c. c \<noteq> CHR '':'') url in
      if length pre < length url \<and> pre \<noteq> []
         \<and> hd pre \<in> set (ascii_lowercase @ ascii_uppercase)
         \<and> list_all (\<lambda>c. c \<in> set scheme_chars) pre
      then (lower pre, drop (length pre + 1) url)
      else ('''', url))"

definition splitnetloc :: "string \<Rightarrow> string \<times> string" where
  "splitnetloc url =
     (let delim = (\<lambda>c. c \<in> set ''/?#'') in
      (takeWhile (\<lambda>c. \<not> delim c) (drop 2 url), dropWhile (\<lambda>c. \<not> delim c) (drop 2 url)))"

definition unbalanced_brackets :: "string \<Rightarrow> bool" where
  "unbalanced_brackets n \<longleftrightarrow>
     (CHR ''['' \<in> set n \<and> CHR '']'' \<notin> set n) \<or> (CHR '']'' \<in> set n \<and> CHR ''['' \<notin> set n)"

definition isascii :: "string \<Rightarrow> bool" where
  "isascii s \<longleftrightarrow> list_all (\<lambda>c. (of_char c :: nat) < 128) s"

definition urlsplit :: "runtime \<Rightarrow> string \<Rightarrow> exn + URLParseResult" where
  "urlsplit rt url0 =
     (let url1 = filter (\<lambda>c. \<not> unsafe_url_byte c) (dropWhile c0_control_or_space url0);
          (sch, url2) = split_scheme url1;
          (nl, url3) = (if take 2 url2 = ''//'' then splitnetloc url2 else ('''', url2));
          (url4, frag) = (if CHR ''#'' \<in> set url3 then split_first CHR ''#'' url3 else (url3, ''''));
          (url5, qry) = (if CHR ''?'' \<in> set url4 then split_first CHR ''?'' url4 else (url4, ''''))
      in if unbalanced_brackets nl then Inl (Exception ''Invalid IPv6 URL'')
         else case (if (CHR ''['' \<in> set nl \<and> CHR '']'' \<in> set nl) \<or> \<not> isascii nl
                    then host_error rt nl else None) of
                Some m \<Rightarrow> Inl (Exception m)
              | None \<Rightarrow> Inr \<lparr>scheme = sch, netloc = nl, path = url5, params = '''',
                              query = qry, fragment = frag\<rparr>)"

definition uses_params :: "string list" where
  "uses_params = ['''', ''ftp'', ''hdl'', ''prospero'', ''http'', ''imap'', ''https'',
                  ''shttp'', ''rtsp'', ''rtsps'', ''rtspu'', ''sip'', ''sips'', ''mms'',
                  ''sftp'', ''tel'']"

text \<open>\<^verbatim>\<open>_splitparams\<close>: the parameters follow the first \<open>;\<close> of the last path segment.\<close>

definition splitparams :: "string \<Rightarrow> string \<times> string" where
  "splitparams url =
     (let seg = rev (takeWhile (\<lambda>c. c \<noteq> CHR ''/'') (rev url));
          hd_part = take (length url - length seg) url
      in if CHR ''/'' \<in> set url \<and> CHR '';'' \<notin> set seg then (url, '''')
         else (hd_part @ fst (split_first CHR '';'' seg), snd (split_first CHR '';'' seg)))"

definition urlparse :: "runtime \<Rightarrow> string \<Rightarrow> exn + URLParseResult" where
  "urlparse rt url =
     (case urlsplit rt url of
        Inl e \<Rightarrow> Inl e
      | Inr r \<Rightarrow>
          if scheme r \<in> set uses_params \<and> CHR '';'' \<in> set (path r)
          then Inr (r\<lparr>path := fst (splitparams (path r)), params := snd (splitparams (path r))\<rparr>)
          else Inr r)"

definition uses_netloc :: "string list" where
  "uses_netloc = ['''', ''ftp'', ''http'', ''gopher'', ''nntp'', ''telnet'', ''imap'', ''wais'',
                  ''file'', ''mms'', ''https'', ''shttp'', ''snews'', ''prospero'', ''rtsp'',
                  ''rtsps'', ''rtspu'', ''rsync'', ''svn'', ''svn+ssh'', ''sftp'', ''nfs'',
                  ''git'', ''git+ssh'', ''ws'', ''wss'']"

definition urlunsplit :: "string \<Rightarrow> string \<Rightarrow> string \<Rightarrow> string \<Rightarrow> string \<Rightarrow> string" where
  "urlunsplit sch nl url qry frag =
     (let url1 = (if nl \<noteq> [] \<or> (sch \<noteq> [] \<and> sch \<in> set uses_netloc) \<or> take 2 url = ''//''
                  then ''//'' @ nl @ (if url \<noteq> [] \<and> take 1 url \<noteq> ''/'' then ''/'' @ url else url)
                  else url);
          url2 = (if sch \<noteq> [] then sch @ '':'' @ url1 else url1);
          url3 = (if qry \<noteq> [] then url2 @ ''?'' @ qry else url2)
      in if frag \<noteq> [] then url3 @ ''#'' @ frag else url3)"

definition urlunparse :: "URLParseResult \<Rightarrow> string" where
  "urlunparse r =
     urlunsplit (scheme r) (netloc r)
       (if params r \<noteq> [] then path r @ '';'' @ params r else path r) (query r) (fragment r)"

subsection \<open>pystac.utils: safe_urlparse, JoinType, join_path_or_url\<close>

text \<open>
  \<^verbatim>\<open>safe_urlparse\<close> makes a Windows drive letter that \<^verbatim>\<open>urlparse\<close> read as a scheme
  part of the path again and, where \<^verbatim>\<open>os.name\<close> is \<open>nt\<close>, moves the drive of a
  \<^verbatim>\<open>file\<close> URL into the path.
\<close>

definition safe_urlparse :: "runtime \<Rightarrow> string \<Rightarrow> exn + URLParseResult" where
  "safe_urlparse rt href =
     (case urlparse rt href of
        Inl e \<Rightarrow> Inl e
      | Inr parsed \<Rightarrow>
          if scheme parsed \<noteq> '''' \<and>
             (startswith (lower href) (scheme parsed @ [CHR '':'', CHR 0x5C])
              \<or> (startswith (lower href) (scheme parsed @ '':/'')
                  \<and> \<not> startswith (lower href) (scheme parsed @ ''://'')))
          then Inr \<lparr>scheme = '''', netloc = '''',
                    path = take (length (scheme parsed)) href @ '':'' @ path parsed,
                    params = params parsed, query = query parsed, fragment = fragment parsed\<rparr>
          else if scheme parsed = ''file'' \<and> os_name rt = ''nt''
          then Inr \<lparr>scheme = scheme parsed, netloc = '''',
                    path = (if netloc parsed \<noteq> '''' then netloc parsed @ path parsed
                            else if startswith (path parsed) ''/''
                                    \<and> CHR '':'' \<in> set (path parsed)
                            then drop 1 (path parsed)
                            else path parsed),
                    params = params parsed, query = query parsed, fragment = fragment parsed\<rparr>
          else Inr parsed)"

datatype JoinType = PATH | URL

definition from_parsed_uri :: "URLParseResult \<Rightarrow> JoinType" where
  "from_parsed_uri parsed_uri = (if scheme parsed_uri = '''' then PATH else URL)"

definition join_path_or_url :: "runtime \<Rightarrow> JoinType \<Rightarrow> string \<Rightarrow> string list \<Rightarrow> string" where
  "join_path_or_url rt join_type a p =
     (if join_type = PATH then os_path_join rt a p else posixpath_join a p)"

subsection \<open>make\_catalog.py: the layout policy ItemInSubdirLayout\<close>

text \<open>
  A \<^verbatim>\<open>pystac.Item\<close> as far as the scripts read it: its identifier, its own href and its
  links. \<open>get_item_href\<close> is lines 21 to 29; it fails where \<^verbatim>\<open>safe_urlparse\<close> does.
\<close>

record link =
  link_rel :: string
  link_href :: string

record stac_object =
  stac_id :: string
  self_href :: "string option"
  links :: "link list"

definition get_item_href :: "runtime \<Rightarrow> stac_object \<Rightarrow> string \<Rightarrow> exn + string" where
  "get_item_href rt item parent_dir =
     (case safe_urlparse rt parent_dir of
        Inl e \<Rightarrow> Inl e
      | Inr parsed_parent_dir \<Rightarrow>
          (let join_type = from_parsed_uri parsed_parent_dir;
               items_dir = ''items'';
               item_filename = stac_id item @ ''.json''
           in Inr (join_path_or_url rt join_type parent_dir [items_dir, item_filename])))"

text \<open>\<^verbatim>\<open>posixpath.dirname\<close>: the text before the last separator, without trailing separators
  unless it consists of separators only.\<close>

definition dirname :: "string \<Rightarrow> string" where
  "dirname p =
     (let head = take (length p - length (takeWhile (\<lambda>c. c \<noteq> CHR ''/'') (rev p))) p
      in if head \<noteq> [] \<and> \<not> list_all (\<lambda>c. c = CHR ''/'') head
         then rev (dropWhile (\<lambda>c. c = CHR ''/'') (rev head)) else head)"


subsection \<open>The world of the scripts and the pystac operations they call\<close>

text \<open>
  A file under the release directory either holds a STAC document that the loader
  accepts, or something the loader rejects with a message (bad JSON, a document of
  another type, an unreadable file). \<open>stdout\<close> and \<open>stderr\<close> hold one entry for each
  call of \<^verbatim>\<open>print\<close>, in order.
\<close>

datatype disk_file = Stac stac_object | Unreadable string

record world =
  files :: "string \<rightharpoonup> disk_file"
  stdout :: "string list"
  stderr :: "string list"

definition print_out :: "string \<Rightarrow> world \<Rightarrow> world" where
  "print_out s w = w\<lparr>stdout := stdout w @ [s]\<rparr>"

definition print_err :: "string \<Rightarrow> world \<Rightarrow> world" where
  "print_err s w = w\<lparr>stderr := stderr w @ [s]\<rparr>"

definition quoted :: "string \<Rightarrow> string" where
  "quoted s = [CHR 0x27] @ s @ [CHR 0x27]"

definition digit_char :: "nat \<Rightarrow> char" where
  "digit_char d = ''0123456789'' ! d"

function str_nat :: "nat \<Rightarrow> string" where
  "str_nat n = (if n < 10 then [digit_char n] else str_nat (n div 10) @ [digit_char (n mod 10)])"
  by pat_completeness auto
termination
  by (relation "measure id") auto

declare str_nat.simps [simp del]

text \<open>What \<^verbatim>\<open>parse_args\<close> of the validator's parser gives: the namespace with
  \<^verbatim>\<open>catalog_path\<close>, or the end of the process with a status and what was printed
  to the two streams.\<close>

datatype argparse_result = Namespace string | Exit nat "string list" "string list"

text \<open>
  The operations of pystac and of the standard library that are taken as given:
  \<^item> \<open>python\<close>: the runtime of the installation;
  \<^item> \<open>abspath\<close>: the absolute form of a local path, against the working directory,
    which is how \<^verbatim>\<open>open\<close> finds a file and what \<^verbatim>\<open>make_absolute_href\<close> gives for a href
    without a scheme;
  \<^item> \<open>path_div\<close>: \<^verbatim>\<open>str(pathlib.Path(a) / b)\<close>;
  \<^item> \<open>add_child\<close>: \<^verbatim>\<open>catalog.add_child(child, strategy=ItemInSubdirLayout())\<close>. It
    reads no file; what it raises is an \<^verbatim>\<open>Exception\<close> other than
    \<^verbatim>\<open>FileNotFoundError\<close>, given by its message, and a catalog it raised on has no new
    child link;
  \<^item> \<open>save\<close>: \<^verbatim>\<open>catalog.save(catalog_type=SELF_CONTAINED)\<close>, which gives the files it
    leaves and the exception it raised, if any;
  \<^item> \<open>rendered_links\<close>: the links \<^verbatim>\<open>to_dict\<close> writes for an object, besides its self
    link;
  \<^item> \<open>validate_all\<close>: \<^verbatim>\<open>pystac.validation.validate_all\<close>, the recursive schema
    validation, giving the exception it raised, if any;
  \<^item> \<open>negative_number\<close>: whether the parser's \<^verbatim>\<open>_negative_number_matcher\<close> matches an
    argument; \<open>py_repr\<close>: \<^verbatim>\<open>repr\<close> of a string; \<open>format_help\<close>: the help text of the
    parser for a program name.
\<close>

record library =
  python :: runtime
  abspath :: "string \<Rightarrow> string"
  path_div :: "string \<Rightarrow> string \<Rightarrow> string"
  add_child :: "stac_object \<Rightarrow> stac_object \<Rightarrow> string + stac_object"
  save :: "stac_object \<Rightarrow> (string \<rightharpoonup> disk_file) \<Rightarrow> exn option \<times> (string \<rightharpoonup> disk_file)"
  rendered_links :: "stac_object \<Rightarrow> link list"
  validate_all :: "(string \<rightharpoonup> disk_file) \<Rightarrow> stac_object \<Rightarrow> exn option"
  negative_number :: "string \<Rightarrow> bool"
  py_repr :: "string \<Rightarrow> string"
  format_help :: "string \<Rightarrow> string"

definition no_such_file :: "string \<Rightarrow> string" where
  "no_such_file p = ''[Errno 2] No such file or directory: '' @ quoted p"

text \<open>
  \<^verbatim>\<open>pystac.utils.make_absolute_href\<close> with the working directory as the start: the href
  is put in POSIX style and parsed, which raises \<^verbatim>\<open>ValueError\<close> where the URL parser
  does; a href with a scheme is put together again from its parts, and a local path
  is made absolute.
\<close>

definition make_posix_style :: "string \<Rightarrow> string" where
  "make_posix_style h = map (\<lambda>c. if c = CHR 0x5C then CHR ''/'' else c) h"

definition make_absolute_href :: "library \<Rightarrow> string \<Rightarrow> exn + string" where
  "make_absolute_href lib source_href =
     (case safe_urlparse (python lib) (make_posix_style source_href) of
        Inl e \<Rightarrow> Inl e
      | Inr parsed_source \<Rightarrow>
          if scheme parsed_source \<noteq> '''' then Inr (urlunparse parsed_source)
          else Inr (abspath lib source_href))"

text \<open>
  \<^verbatim>\<open>Catalog.from_file\<close> and \<^verbatim>\<open>Collection.from_file\<close>: the href is made absolute, the
  file is read from the release directory, and the object's self href is the absolute
  href whatever self link the document records. Reading a href over the network is
  not modelled.
\<close>

definition from_file :: "library \<Rightarrow> (string \<rightharpoonup> disk_file) \<Rightarrow> string \<Rightarrow> exn + stac_object" where
  "from_file lib fs h =
     (case make_absolute_href lib h of
        Inl e \<Rightarrow> Inl e
      | Inr a \<Rightarrow>
          (case fs (abspath lib h) of
             None \<Rightarrow> Inl (FileNotFoundError (no_such_file (abspath lib h)))
           | Some (Unreadable m) \<Rightarrow> Inl (Exception m)
           | Some (Stac d) \<Rightarrow> Inr (d\<lparr>self_href := Some (abspath lib h)\<rparr>)))"

text \<open>
  \<^verbatim>\<open>obj.set_self_href(href)\<close>: the self link is made with the absolute form of the
  href, so it raises where \<^verbatim>\<open>make_absolute_href\<close> does.
\<close>

definition set_self_href :: "library \<Rightarrow> stac_object \<Rightarrow> string \<Rightarrow> exn + stac_object" where
  "set_self_href lib obj h =
     (case make_absolute_href lib h of
        Inl e \<Rightarrow> Inl e
      | Inr a \<Rightarrow> Inr (obj\<lparr>self_href := Some a\<rparr>))"

definition to_dict :: "library \<Rightarrow> stac_object \<Rightarrow> stac_object" where
  "to_dict lib obj = obj\<lparr>links := rendered_links lib obj\<rparr>"

text \<open>\<^verbatim>\<open>obj.save_object(dest_href=...)\<close>: one file is written, with the self link included.\<close>

definition save_object :: "library \<Rightarrow> stac_object \<Rightarrow> string \<Rightarrow> world \<Rightarrow> world" where
  "save_object lib obj dest_href w =
     w\<lparr>files := (files w)(abspath lib dest_href \<mapsto> Stac (to_dict lib obj))\<rparr>"

subsection \<open>make\_catalog.py: configuration and create\_and\_save\_catalog\<close>

definition CATALOG_ID :: string where
  "CATALOG_ID = ''calkoen-phd-stac''"

definition CATALOG_PUBLISHED_URL :: string where
  "CATALOG_PUBLISHED_URL = ''https://coclico.blob.core.windows.net/stac/v1/catalog.json''"

definition COLLECTION_DIRS :: "string list" where
  "COLLECTION_DIRS =
     [''gcts'', ''gctr'', ''global-coastal-typology'', ''shoreline-projections'',
      ''s2-l2a-composite'', ''coastal-grid'', ''shoreline-projections-edito'',
      ''coastal-zone'', ''shorelinemonitor-series'', ''shorelinemonitor-shorelines'',
      ''overture-buildings'', ''deltares-delta-dtm'']"

text \<open>
  Lines 117 to 126: the root catalog, with its self href set to the catalog's path;
  line 126 raises where \<^verbatim>\<open>set_self_href\<close> does. The title, the description and the
  attributes assigned in lines 120 to 122 are not read by anything below and are left
  out of \<open>stac_object\<close>.
\<close>

definition new_catalog :: "library \<Rightarrow> string \<Rightarrow> exn + stac_object" where
  "new_catalog lib catalog_path =
     set_self_href lib \<lparr>stac_id = CATALOG_ID, self_href = None, links = []\<rparr> catalog_path"

definition collection_path :: "library \<Rightarrow> string \<Rightarrow> string \<Rightarrow> string" where
  "collection_path lib output_dir collection_id =
     path_div lib (path_div lib output_dir collection_id) ''collection.json''"

text \<open>Lines 131 to 142: the body of the loop, for one collection directory name.\<close>

definition attach_one ::
  "library \<Rightarrow> string \<Rightarrow> string \<Rightarrow> stac_object \<times> world \<Rightarrow> stac_object \<times> world" where
  "attach_one lib output_dir collection_id cw =
     (let catalog = fst cw; w = snd cw;
          cpath = collection_path lib output_dir collection_id
      in case from_file lib (files w) cpath of
           Inr child_collection \<Rightarrow>
             (case add_child lib catalog child_collection of
                Inr catalog' \<Rightarrow>
                  (catalog', print_out (''  + Read collection '' @ quoted collection_id) w)
              | Inl m \<Rightarrow>
                  (catalog, print_out (''  - Warning: Could not process '' @ cpath
                                        @ ''. Error: '' @ m @ ''. Skipping.'') w))
         | Inl (FileNotFoundError m) \<Rightarrow>
             (catalog, print_out (''  - Warning: Could not find '' @ cpath @ ''. Skipping.'') w)
         | Inl (Exception m) \<Rightarrow>
             (catalog, print_out (''  - Warning: Could not process '' @ cpath
                                   @ ''. Error: '' @ m @ ''. Skipping.'') w))"

fun attach_children ::
  "library \<Rightarrow> string \<Rightarrow> string list \<Rightarrow> stac_object \<times> world \<Rightarrow> stac_object \<times> world" where
  "attach_children lib output_dir [] cw = cw"
| "attach_children lib output_dir (n # ns) cw =
     attach_children lib output_dir ns (attach_one lib output_dir n cw)"

text \<open>Lines 130 to 142: the loop over \<^verbatim>\<open>sorted(collection_dirs)\<close>.\<close>

definition attach_loop ::
  "library \<Rightarrow> string \<Rightarrow> string list \<Rightarrow> stac_object \<times> world \<Rightarrow> stac_object \<times> world" where
  "attach_loop lib output_dir collection_dirs cw =
     attach_children lib output_dir (sort collection_dirs) cw"

text \<open>
  Lines 162 to 166: the root document is read again from the catalog's path, its self
  href is set to the public URL, and this one object is saved to the same path. The
  result is the exception that left the phase, if any, and the world.
\<close>

definition reanchor :: "library \<Rightarrow> string \<Rightarrow> world \<Rightarrow> exn option \<times> world" where
  "reanchor lib catalog_path w =
     (let w1 = print_out (''Anchoring catalog by adding absolute self link: ''
                           @ CATALOG_PUBLISHED_URL) w
      in case from_file lib (files w1) catalog_path of
           Inl e \<Rightarrow> (Some e, w1)
         | Inr root_catalog \<Rightarrow>
             (case set_self_href lib root_catalog CATALOG_PUBLISHED_URL of
                Inl e \<Rightarrow> (Some e, w1)
              | Inr anchored \<Rightarrow> (None, save_object lib anchored catalog_path w1)))"

text \<open>
  Lines 113 to 142: the exception of line 126 and the world at that point, or the
  catalog and the world when the loop has ended.
\<close>

definition assemble ::
  "library \<Rightarrow> string \<Rightarrow> string list \<Rightarrow> world \<Rightarrow> (exn + stac_object) \<times> world" where
  "assemble lib output_dir collection_dirs w =
     (let w1 = print_out (''Creating STAC Catalog '' @ quoted CATALOG_ID @ ''...'') w;
          catalog_path = path_div lib output_dir ''catalog.json''
      in case new_catalog lib catalog_path of
           Inl e \<Rightarrow> (Inl e, w1)
         | Inr catalog \<Rightarrow>
             (let w2 = print_out (''Reading '' @ str_nat (length collection_dirs)
                                   @ '' child collections from disk...'') w1;
                  cw = attach_loop lib output_dir collection_dirs (catalog, w2)
              in (Inr (fst cw), snd cw)))"

text \<open>
  The \<^verbatim>\<open>try\<close> statement of lines 146 to 151 is modelled whole, handler included.
  \<open>line_147\<close> stands for the statement at line 147 of the \<^verbatim>\<open>try\<close> body and gives the
  exception it raises, if any. In the source that line is the comment
  \<^verbatim>\<open># catalog.validate_all()\<close>, so the program as written is
  \<open>create_and_save_catalog\<close> below, where the statement does nothing.
  The result of the builder is the exception that propagated out of it, if any, and
  the world it leaves.
\<close>

definition create_and_save_catalog_with ::
  "(stac_object \<Rightarrow> exn option) \<Rightarrow> library \<Rightarrow> string \<Rightarrow> string list \<Rightarrow> world
     \<Rightarrow> exn option \<times> world" where
  "create_and_save_catalog_with line_147 lib output_dir collection_dirs w =
     (let catalog_path = path_div lib output_dir ''catalog.json''
      in case assemble lib output_dir collection_dirs w of
           (Inl e, w1) \<Rightarrow> (Some e, w1)
         | (Inr catalog, w3) \<Rightarrow>
             (let w4 = print_out ([CHR 0x0A] @ ''Validating catalog and all children/items ''
                                   @ ''(this may take a moment)...'') w3
              in case line_147 catalog of
                   Some e \<Rightarrow> (None, print_err (''Validation failed: '' @ str_exn e) w4)
                 | None \<Rightarrow>
                     (let w5 = print_out ''Validation successful!'' w4;
                          w6 = print_out ([CHR 0x0A] @ ''Saving catalog as SELF_CONTAINED ''
                                           @ ''to create relative links...'') w5;
                          saved = save lib catalog (files w6);
                          w7 = w6\<lparr>files := snd saved\<rparr>
                      in case fst saved of
                           Some e \<Rightarrow> (Some e, w7)
                         | None \<Rightarrow>
                             (case reanchor lib catalog_path w7 of
                                (Some e, w8) \<Rightarrow> (Some e, w8)
                              | (None, w8) \<Rightarrow>
                                  (None, print_out ([CHR 0x0A]
                                     @ ''Successfully saved RELATIVE PUBLISHED catalog to: ''
                                     @ catalog_path) w8)))))"

definition create_and_save_catalog ::
  "library \<Rightarrow> string \<Rightarrow> string list \<Rightarrow> world \<Rightarrow> exn option \<times> world" where
  "create_and_save_catalog = create_and_save_catalog_with (\<lambda>catalog. None)"

text \<open>The exit status of a script whose top-level call returned, or raised and was not caught.\<close>

definition exit_status :: "exn option \<Rightarrow> nat" where
  "exit_status r = (case r of None \<Rightarrow> 0 | Some e \<Rightarrow> 1)"

subsection \<open>validate\_catalog.py: main\<close>

text \<open>
  Lines 12 to 18: \<^verbatim>\<open>argparse\<close> for a parser with the one positional argument
  \<^verbatim>\<open>catalog_path\<close> and the help option \<^verbatim>\<open>-h\<close>, \<^verbatim>\<open>--help\<close>.

  \<open>parse_optional\<close> is \<^verbatim>\<open>_parse_optional\<close>: an argument is positional, the help option
  (with the option string, whether a separator \<open>=\<close> was read, and the explicit value, if
  any), or an option the parser does not know. An abbreviation of \<^verbatim>\<open>--help\<close> and an
  argument that starts with \<^verbatim>\<open>-h\<close> are read as the help option.
\<close>

datatype arg_class = ArgPositional | ArgHelp string bool "string option" | ArgUnknown

definition parse_optional :: "library \<Rightarrow> string \<Rightarrow> arg_class" where
  "parse_optional lib arg_string =
     (if arg_string = [] \<or> hd arg_string \<noteq> CHR ''-'' then ArgPositional
      else if arg_string = ''-h'' \<or> arg_string = ''--help'' then ArgHelp arg_string False None
      else if length arg_string = 1 then ArgPositional
      else
        (let option_string = takeWhile (\<lambda>c. c \<noteq> CHR ''='') arg_string;
             sep = (CHR ''='' \<in> set arg_string);
             explicit_arg = drop (length option_string + 1) arg_string
         in if sep \<and> (option_string = ''-h'' \<or> option_string = ''--help'')
            then ArgHelp option_string True (Some explicit_arg)
            else if arg_string ! 1 = CHR ''-'' \<and> startswith ''--help'' option_string
            then ArgHelp ''--help'' sep (if sep then Some explicit_arg else None)
            else if arg_string ! 1 \<noteq> CHR ''-'' \<and> take 2 arg_string = ''-h''
            then ArgHelp ''-h'' False (Some (drop 2 arg_string))
            else if negative_number lib arg_string then ArgPositional
            else if CHR '' '' \<in> set arg_string then ArgPositional
            else ArgUnknown))"

text \<open>
  The help option \<^verbatim>\<open>-h\<close> met with an explicit value, in \<^verbatim>\<open>consume_optional\<close>: the
  value is read as further single-dash options. The result is the explicit value that
  is reported as ignored, or \<open>None\<close> when the help action is taken.
\<close>

fun short_help :: "bool \<Rightarrow> string \<Rightarrow> string option" where
  "short_help sep [] = Some []"
| "short_help sep (c # cs) =
     (if sep \<or> c = CHR ''-'' then Some (c # cs)
      else if c = CHR ''h'' then
        (case cs of
           [] \<Rightarrow> None
         | d # ds \<Rightarrow> if d = CHR ''='' then short_help True ds else short_help False (d # ds))
      else None)"

definition help_outcome :: "string \<Rightarrow> bool \<Rightarrow> string option \<Rightarrow> string option" where
  "help_outcome option_string sep explicit_arg =
     (case explicit_arg of
        None \<Rightarrow> None
      | Some x \<Rightarrow> if option_string = ''-h'' then short_help sep x else Some x)"

text \<open>
  The loop of \<^verbatim>\<open>_parse_known_args\<close> over the arguments, from the left: whether
  \<^verbatim>\<open>--\<close> has been met (every argument after it is positional), the value taken for
  \<^verbatim>\<open>catalog_path\<close>, and the arguments left over so far. The first positional argument
  is the catalog path, together with a \<^verbatim>\<open>--\<close> next to it; the help option ends the
  parse where it is met.
\<close>

datatype scan_result = Parsed "string option" "string list" | HelpExit | HelpError string

fun scan :: "library \<Rightarrow> bool \<Rightarrow> string option \<Rightarrow> string list \<Rightarrow> string list \<Rightarrow> scan_result" where
  "scan lib seen pos extras [] = Parsed pos extras"
| "scan lib seen pos extras (a # rest) =
     (if seen then
        (case pos of
           None \<Rightarrow> scan lib seen (Some a) extras rest
         | Some p \<Rightarrow> scan lib seen pos (extras @ [a]) rest)
      else if a = ''--'' then
        (case pos of
           Some p \<Rightarrow> scan lib True pos (extras @ [a]) rest
         | None \<Rightarrow>
             (case rest of
                [] \<Rightarrow> scan lib True pos (extras @ [a]) rest
              | b # rest' \<Rightarrow> scan lib True (Some b) extras rest'))
      else
        (case parse_optional lib a of
           ArgHelp option_string sep explicit_arg \<Rightarrow>
             (case help_outcome option_string sep explicit_arg of
                None \<Rightarrow> HelpExit
              | Some x \<Rightarrow> HelpError x)
         | ArgUnknown \<Rightarrow> scan lib seen pos (extras @ [a]) rest
         | ArgPositional \<Rightarrow>
             (case pos of
                Some p \<Rightarrow> scan lib seen pos (extras @ [a]) rest
              | None \<Rightarrow>
                  (case rest of
                     [] \<Rightarrow> scan lib seen (Some a) extras rest
                   | b # rest' \<Rightarrow>
                       if b = ''--'' then scan lib True (Some a) extras rest'
                       else scan lib seen (Some a) extras rest))))"

definition usage :: "string \<Rightarrow> string" where
  "usage prog = ''usage: '' @ prog @ '' [-h] catalog_path''"

fun unwords :: "string list \<Rightarrow> string" where
  "unwords [] = []"
| "unwords [x] = x"
| "unwords (x # y # ys) = x @ '' '' @ unwords (y # ys)"

text \<open>
  \<^verbatim>\<open>parse_args\<close>: the help action prints the help to the output stream and ends the
  process with status 0; an error prints the usage and a message to the error stream
  and ends the process with status 2.
\<close>

definition parse_args :: "library \<Rightarrow> string \<Rightarrow> string list \<Rightarrow> argparse_result" where
  "parse_args lib prog args =
     (case scan lib False None [] args of
        HelpExit \<Rightarrow> Exit 0 [format_help lib prog] []
      | HelpError x \<Rightarrow>
          Exit 2 [] [usage prog,
            prog @ '': error: argument -h/--help: ignored explicit argument '' @ py_repr lib x]
      | Parsed None extras \<Rightarrow>
          Exit 2 [] [usage prog,
            prog @ '': error: the following arguments are required: catalog_path'']
      | Parsed (Some catalog_path) extras \<Rightarrow>
          if extras = [] then Namespace catalog_path
          else Exit 2 [] [usage prog,
                 prog @ '': error: unrecognized arguments: '' @ unwords extras])"

text \<open>Lines 35 to 38: the handler of \<^verbatim>\<open>except Exception\<close>.\<close>

definition validation_failed :: "exn \<Rightarrow> world \<Rightarrow> nat \<times> world" where
  "validation_failed e w =
     (1, print_err (''Error: '' @ str_exn e) (print_err ([CHR 0x0A] @ ''Validation failed.'') w))"

text \<open>
  \<open>main\<close> gives the exit status of the process and the world it leaves.
  \<^verbatim>\<open>sys.exit(0)\<close> raises \<^verbatim>\<open>SystemExit\<close>, which \<^verbatim>\<open>except Exception\<close> does not catch.
\<close>

definition main :: "library \<Rightarrow> string \<Rightarrow> string list \<Rightarrow> world \<Rightarrow> nat \<times> world" where
  "main lib prog args w =
     (case parse_args lib prog args of
        Exit status out err \<Rightarrow> (status, w\<lparr>stdout := stdout w @ out, stderr := stderr w @ err\<rparr>)
      | Namespace catalog_path \<Rightarrow>
          (let w1 = print_out (''Attempting to read catalog from: '' @ catalog_path) w
           in case from_file lib (files w1) catalog_path of
                Inl e \<Rightarrow> validation_failed e w1
              | Inr root_catalog \<Rightarrow>
                  (let w2 = print_out (''Successfully read catalog ''
                                        @ quoted (stac_id root_catalog) @ ''.'') w1;
                       w3 = print_out
                              ''Starting recursive validation of all collections and items...'' w2
                   in case validate_all lib (files w3) root_catalog of
                        Some e \<Rightarrow> validation_failed e w3
                      | None \<Rightarrow>
                          (0, print_out ''The STAC catalog and all its children are valid.''
                                (print_out ([CHR 0x0A] @ ''Validation successful!'') w3)))))"

subsection \<open>An example release directory\<close>

text \<open>
  A small instance on which the theorems below are evaluated: a POSIX runtime, the
  working directory \<open>/work\<close>, paths joined with \<open>/\<close>, attaching a collection without an
  identifier raises, saving writes the root document only, and validation fails on a
  child link whose file is missing.
\<close>

definition example_lib :: library where
  "example_lib =
     \<lparr>python = posix_runtime,
      abspath = (\<lambda>p. if startswith p ''/'' then p else ''/work/'' @ p),
      path_div = (\<lambda>a b. a @ ''/'' @ b),
      add_child = (\<lambda>catalog child.
        if stac_id child = [] then Inl ''collection has no id''
        else Inr (catalog\<lparr>links := links catalog
                    @ [\<lparr>link_rel = ''child'',
                        link_href = ''./'' @ stac_id child @ ''/collection.json''\<rparr>]\<rparr>)),
      save = (\<lambda>catalog fs.
        case self_href catalog of
          None \<Rightarrow> (Some (Exception ''no self href''), fs)
        | Some h \<Rightarrow> (None, fs(h \<mapsto> Stac (catalog\<lparr>self_href := None\<rparr>)))),
      rendered_links = links,
      validate_all = (\<lambda>fs obj.
        case find (\<lambda>l. link_rel l = ''child''
                        \<and> fs (''/work/release/v1/'' @ drop 2 (link_href l)) = None) (links obj) of
          Some l \<Rightarrow> Some (FileNotFoundError (no_such_file (link_href l)))
        | None \<Rightarrow> None),
      negative_number = (\<lambda>a. take 1 a = ''-'' \<and> drop 1 a \<noteq> []
                               \<and> list_all (\<lambda>c. c \<in> set ''0123456789'') (drop 1 a)),
      py_repr = quoted,
      format_help = (\<lambda>prog. usage prog)\<rparr>"

definition example_world :: world where
  "example_world =
     \<lparr>files =
        [''/work/release/v1/gctr/collection.json'' \<mapsto>
           Stac \<lparr>stac_id = ''gctr'', self_href = None,
                 links = [\<lparr>link_rel = ''item'', link_href = ''./items/t1.json''\<rparr>]\<rparr>,
         ''/work/release/v1/coastal-grid/collection.json'' \<mapsto>
           Unreadable ''Expecting value: line 1 column 1 (char 0)'',
         ''/work/release/v1/anon/collection.json'' \<mapsto>
           Stac \<lparr>stac_id = [], self_href = None, links = []\<rparr>],
      stdout = [], stderr = []\<rparr>"

section \<open>The layout policy\<close>

lemma get_item_href_parsed:
  "safe_urlparse rt p = Inr u \<Longrightarrow>
   get_item_href rt item p =
     Inr (join_path_or_url rt (from_parsed_uri u) p [''items'', stac_id item @ ''.json''])"
  by (simp add: get_item_href_def)

lemma safe_urlparse_example_org:
  "host_error rt ''example.org'' = None \<Longrightarrow>
   safe_urlparse rt ''https://example.org/cat'' =
     Inr \<lparr>scheme = ''https'', netloc = ''example.org'', path = ''/cat'', params = '''',
          query = '''', fragment = ''''\<rparr>"
  by (simp add: safe_urlparse_def urlparse_def urlsplit_def split_scheme_def splitnetloc_def
      c0_control_or_space_def unsafe_url_byte_def unbalanced_brackets_def uses_params_def
      scheme_chars_def ascii_lowercase_def ascii_uppercase_def lower_def lower_char_def
      startswith_def isascii_def)

text \<open>
  Claim C2 fails on the code. The class and the method say that every item file is
  placed in the subdirectory \<open>items\<close> of its collection, and for the parent directory
  \<open>foo\<close> and the identifier \<open>bar\<close> the href is \<open>foo/items/bar.json\<close>. But the identifier
  is joined unchecked, and \<^verbatim>\<open>posixpath.join\<close> discards what precedes a component that
  starts with \<open>/\<close>: the identifier \<open>/foo/bar\<close> under the parent directory \<open>/foo\<close> gives
  \<open>/foo/bar.json\<close>, a file directly in the parent directory, beside the collection
  document.
\<close>

theorem item_href_beside_collection:
  "get_item_href posix_runtime \<lparr>stac_id = ''bar'', self_href = None, links = []\<rparr> ''foo''
     = Inr ''foo/items/bar.json''
   \<and> get_item_href posix_runtime \<lparr>stac_id = ''/foo/bar'', self_href = None, links = []\<rparr> ''/foo''
       = Inr ''/foo/bar.json''
   \<and> dirname ''/foo/bar.json'' = ''/foo''"
  by code_simp

text \<open>
  Claim C3, as amended. For every parent href that the URL parser accepts, the href is
  joined with \<^verbatim>\<open>posixpath.join\<close> (forward slashes, whatever the platform) when the
  parsed parent has a scheme, and with the platform's \<^verbatim>\<open>os.path.join\<close> otherwise. On
  every runtime whose host validation accepts \<open>example.org\<close>, the parent
  \<open>https://example.org/cat\<close> and the identifier \<open>x\<close> give
  \<open>https://example.org/cat/items/x.json\<close>.
\<close>

theorem join_semantics_by_parent_kind:
  "(safe_urlparse rt p = Inr u \<longrightarrow>
      get_item_href rt item p =
        Inr (if scheme u \<noteq> '''' then posixpath_join p [''items'', stac_id item @ ''.json'']
             else os_path_join rt p [''items'', stac_id item @ ''.json'']))
   \<and> (host_error rt ''example.org'' = None \<longrightarrow>
        get_item_href rt \<lparr>stac_id = ''x'', self_href = None, links = []\<rparr>
            ''https://example.org/cat''
          = Inr ''https://example.org/cat/items/x.json'')"
proof
  show "safe_urlparse rt p = Inr u \<longrightarrow>
      get_item_href rt item p =
        Inr (if scheme u \<noteq> '''' then posixpath_join p [''items'', stac_id item @ ''.json'']
             else os_path_join rt p [''items'', stac_id item @ ''.json''])"
    by (simp add: get_item_href_parsed join_path_or_url_def from_parsed_uri_def)
next
  show "host_error rt ''example.org'' = None \<longrightarrow>
        get_item_href rt \<lparr>stac_id = ''x'', self_href = None, links = []\<rparr>
            ''https://example.org/cat''
          = Inr ''https://example.org/cat/items/x.json''"
  proof
    assume "host_error rt ''example.org'' = None"
    then show "get_item_href rt \<lparr>stac_id = ''x'', self_href = None, links = []\<rparr>
            ''https://example.org/cat''
          = Inr ''https://example.org/cat/items/x.json''"
      using safe_urlparse_example_org [of rt]
      by (simp add: get_item_href_parsed join_path_or_url_def from_parsed_uri_def
          posixpath_join_def join_step_def startswith_def endswith_def)
  qed
qed

text \<open>
  Witness for C3: a runtime whose \<^verbatim>\<open>os.path.join\<close> is not the POSIX one (it joins with
  backslashes) still joins the URL parent with forward slashes, and joins the
  drive-letter path \<open>C:/data\<close>, which has no scheme, with its own separator.
\<close>

theorem join_semantics_by_parent_kind_witness:
  "get_item_href
      \<lparr>os_path_join = (\<lambda>a ps. foldl (\<lambda>x y. x @ [CHR 0x5C] @ y) a ps),
       host_error = (\<lambda>n. None), os_name = ''nt''\<rparr>
      \<lparr>stac_id = ''x'', self_href = None, links = []\<rparr> ''https://example.org/cat''
     = Inr ''https://example.org/cat/items/x.json''
   \<and> get_item_href
      \<lparr>os_path_join = (\<lambda>a ps. foldl (\<lambda>x y. x @ [CHR 0x5C] @ y) a ps),
       host_error = (\<lambda>n. None), os_name = ''nt''\<rparr>
      \<lparr>stac_id = ''x'', self_href = None, links = []\<rparr> ''C:/data''
     = Inr (''C:/data'' @ [CHR 0x5C] @ ''items'' @ [CHR 0x5C] @ ''x.json'')"
proof -
  let ?rt = "\<lparr>os_path_join = (\<lambda>a ps. foldl (\<lambda>x y. x @ [CHR 0x5C] @ y) a ps),
              host_error = (\<lambda>n. None), os_name = ''nt''\<rparr>"
  let ?x = "\<lparr>stac_id = ''x'', self_href = None, links = []\<rparr>"
  have a: "safe_urlparse ?rt ''C:/data'' =
             Inr \<lparr>scheme = '''', netloc = '''', path = ''C:/data'', params = '''',
                  query = '''', fragment = ''''\<rparr>"
    by code_simp
  have b: "host_error ?rt ''example.org'' = None"
    by simp
  show ?thesis
    using join_semantics_by_parent_kind [of ?rt "''C:/data''" _ ?x] a b
    by simp
qed

text \<open>
  Counterexample to C3 as stated (for every parent href): for the parent href \<open>//[\<close>
  neither join is selected and no href is returned; the URL parser raises
  \<^verbatim>\<open>ValueError\<close>, which the layout policy lets through.
\<close>

theorem join_selection_counterexample:
  "get_item_href posix_runtime \<lparr>stac_id = ''x'', self_href = None, links = []\<rparr> ''//[''
     = Inl (Exception ''Invalid IPv6 URL'')"
  by code_simp

section \<open>The builder\<close>

lemma print_out_fields [simp]:
  "files (print_out s w) = files w" "stderr (print_out s w) = stderr w"
  "stdout (print_out s w) = stdout w @ [s]"
  by (simp_all add: print_out_def)

lemma print_err_fields [simp]:
  "files (print_err s w) = files w" "stdout (print_err s w) = stdout w"
  "stderr (print_err s w) = stderr w @ [s]"
  by (simp_all add: print_err_def)

lemma attach_one_world:
  "\<exists>l. snd (attach_one lib out n (c, w)) = print_out l w"
  by (auto simp: attach_one_def Let_def split: sum.splits exn.splits)

lemma attach_one_missing:
  "from_file lib (files w) (collection_path lib out n) = Inl (FileNotFoundError m) \<Longrightarrow>
   attach_one lib out n (c, w) =
     (c, print_out (''  - Warning: Could not find '' @ collection_path lib out n @ ''. Skipping.'') w)"
  by (simp add: attach_one_def Let_def)

lemma attach_one_unreadable:
  "from_file lib (files w) (collection_path lib out n) = Inl (Exception m) \<Longrightarrow>
   attach_one lib out n (c, w) =
     (c, print_out (''  - Warning: Could not process '' @ collection_path lib out n
                     @ ''. Error: '' @ m @ ''. Skipping.'') w)"
  by (simp add: attach_one_def Let_def)

lemma attach_one_attach_failed:
  "from_file lib (files w) (collection_path lib out n) = Inr child \<Longrightarrow>
   add_child lib c child = Inl m \<Longrightarrow>
   attach_one lib out n (c, w) =
     (c, print_out (''  - Warning: Could not process '' @ collection_path lib out n
                     @ ''. Error: '' @ m @ ''. Skipping.'') w)"
  by (simp add: attach_one_def Let_def)



lemma print_out_inject: "print_out a w = print_out b w \<Longrightarrow> a = b"
proof -
  assume "print_out a w = print_out b w"
  then have "stdout (print_out a w) = stdout (print_out b w)" by simp
  then show "a = b" by simp
qed

lemma attach_children_lines:
  "\<exists>ls. snd (attach_children lib out ns (c, w)) = w\<lparr>stdout := stdout w @ ls\<rparr>
      \<and> list_all2 (\<lambda>n l.
            (\<forall>m. from_file lib (files w) (collection_path lib out n) = Inl (FileNotFoundError m)
               \<longrightarrow> l = ''  - Warning: Could not find '' @ collection_path lib out n @ ''. Skipping.'')
          \<and> (\<forall>m. from_file lib (files w) (collection_path lib out n) = Inl (Exception m)
               \<longrightarrow> l = ''  - Warning: Could not process '' @ collection_path lib out n
                         @ ''. Error: '' @ m @ ''. Skipping.'')) ns ls"
proof (induction ns arbitrary: c w)
  case Nil
  show ?case by simp
next
  case (Cons n ns)
  let ?P = "\<lambda>fs n l.
            (\<forall>m. from_file lib fs (collection_path lib out n) = Inl (FileNotFoundError m)
               \<longrightarrow> l = ''  - Warning: Could not find '' @ collection_path lib out n @ ''. Skipping.'')
          \<and> (\<forall>m. from_file lib fs (collection_path lib out n) = Inl (Exception m)
               \<longrightarrow> l = ''  - Warning: Could not process '' @ collection_path lib out n
                         @ ''. Error: '' @ m @ ''. Skipping.'')"
  obtain c1 w1 where s: "attach_one lib out n (c, w) = (c1, w1)"
    by (cases "attach_one lib out n (c, w)")
  obtain l where l: "w1 = print_out l w"
    using attach_one_world [of lib out n c w] s by auto
  have pl: "?P (files w) n l"
  proof (intro conjI allI impI)
    fix m assume "from_file lib (files w) (collection_path lib out n) = Inl (FileNotFoundError m)"
    from attach_one_missing [OF this, of c] s l
    have "print_out l w = print_out (''  - Warning: Could not find '' @ collection_path lib out n @ ''. Skipping.'') w"
      by simp
    then show "l = ''  - Warning: Could not find '' @ collection_path lib out n @ ''. Skipping.''"
      by (rule print_out_inject)
  next
    fix m assume "from_file lib (files w) (collection_path lib out n) = Inl (Exception m)"
    from attach_one_unreadable [OF this, of c] s l
    have "print_out l w = print_out (''  - Warning: Could not process '' @ collection_path lib out n
                         @ ''. Error: '' @ m @ ''. Skipping.'') w"
      by simp
    then show "l = ''  - Warning: Could not process '' @ collection_path lib out n
                         @ ''. Error: '' @ m @ ''. Skipping.''"
      by (rule print_out_inject)
  qed
  from Cons.IH [of c1 w1] obtain ls where
    ls: "snd (attach_children lib out ns (c1, w1)) = w1\<lparr>stdout := stdout w1 @ ls\<rparr>"
    and all: "list_all2 (?P (files w1)) ns ls"
    by blast
  have fw: "files w1 = files w" using l by simp
  have "snd (attach_children lib out (n # ns) (c, w)) = w\<lparr>stdout := stdout w @ (l # ls)\<rparr>"
    using s ls l by (simp add: print_out_def)
  moreover have "list_all2 (?P (files w)) (n # ns) (l # ls)"
    using pl all fw by simp
  ultimately show ?case by blast
qed

lemma attach_one_files: "files (snd (attach_one lib out n (c, w))) = files w"
  using attach_one_world [of lib out n c w] by auto

lemma attach_children_files: "files (snd (attach_children lib out ns (c, w))) = files w"
proof (induction ns arbitrary: c w)
  case Nil
  show ?case by simp
next
  case (Cons n ns)
  obtain c1 w1 where s: "attach_one lib out n (c, w) = (c1, w1)"
    by (cases "attach_one lib out n (c, w)")
  have "files w1 = files w"
    using attach_one_files [of lib out n c w] s by simp
  then show ?case
    using Cons.IH [of c1 w1] s by simp
qed



lemma make_absolute_href_url:
  "make_absolute_href lib CATALOG_PUBLISHED_URL = Inr CATALOG_PUBLISHED_URL"
  by (simp add: make_absolute_href_def make_posix_style_def CATALOG_PUBLISHED_URL_def
      safe_urlparse_def urlparse_def urlsplit_def split_scheme_def splitnetloc_def
      c0_control_or_space_def unsafe_url_byte_def unbalanced_brackets_def uses_params_def
      scheme_chars_def ascii_lowercase_def ascii_uppercase_def lower_def lower_char_def
      startswith_def isascii_def urlunparse_def urlunsplit_def uses_netloc_def)

lemma set_self_href_url:
  "set_self_href lib obj CATALOG_PUBLISHED_URL = Inr (obj\<lparr>self_href := Some CATALOG_PUBLISHED_URL\<rparr>)"
  by (simp add: set_self_href_def make_absolute_href_url)

lemma from_file_local:
  "make_absolute_href lib h = Inr a \<Longrightarrow> fs (abspath lib h) = Some (Stac d) \<Longrightarrow>
   from_file lib fs h = Inr (d\<lparr>self_href := Some (abspath lib h)\<rparr>)"
  by (simp add: from_file_def)

lemma from_file_parse_error:
  "make_absolute_href lib h = Inl e \<Longrightarrow> from_file lib fs h = Inl e"
  by (simp add: from_file_def)

lemma assemble_cases:
  obtains (setup_raised) e where
      "make_absolute_href lib (path_div lib out ''catalog.json'') = Inl e"
      "assemble lib out dirs w
         = (Inl e, print_out (''Creating STAC Catalog '' @ quoted CATALOG_ID @ ''...'') w)"
  | (assembled) a catalog w3 where
      "make_absolute_href lib (path_div lib out ''catalog.json'') = Inr a"
      "assemble lib out dirs w = (Inr catalog, w3)"
      "(catalog, w3) =
         attach_loop lib out dirs
           (\<lparr>stac_id = CATALOG_ID, self_href = Some a, links = []\<rparr>,
            print_out (''Reading '' @ str_nat (length dirs) @ '' child collections from disk...'')
              (print_out (''Creating STAC Catalog '' @ quoted CATALOG_ID @ ''...'') w))"
proof (cases "make_absolute_href lib (path_div lib out ''catalog.json'')")
  case (Inl e)
  then have "assemble lib out dirs w
         = (Inl e, print_out (''Creating STAC Catalog '' @ quoted CATALOG_ID @ ''...'') w)"
    by (simp add: assemble_def new_catalog_def set_self_href_def Let_def)
  with Inl show thesis by (rule setup_raised)
next
  case (Inr a)
  let ?cw = "attach_loop lib out dirs
           (\<lparr>stac_id = CATALOG_ID, self_href = Some a, links = []\<rparr>,
            print_out (''Reading '' @ str_nat (length dirs) @ '' child collections from disk...'')
              (print_out (''Creating STAC Catalog '' @ quoted CATALOG_ID @ ''...'') w))"
  have "assemble lib out dirs w = (Inr (fst ?cw), snd ?cw)"
    using Inr by (simp add: assemble_def new_catalog_def set_self_href_def Let_def)
  moreover have "(fst ?cw, snd ?cw) = ?cw" by simp
  ultimately show thesis using Inr by (rule assembled [rotated])
qed

lemma assemble_Inr:
  assumes "assemble lib out dirs w = (Inr catalog, w3)"
  shows "files w3 = files w" and "stderr w3 = stderr w"
    and "\<exists>a. make_absolute_href lib (path_div lib out ''catalog.json'') = Inr a"
proof -
  have "files w3 = files w \<and> stderr w3 = stderr w
        \<and> (\<exists>a. make_absolute_href lib (path_div lib out ''catalog.json'') = Inr a)"
  proof (cases rule: assemble_cases [of lib out dirs w])
    case (setup_raised e)
    with assms show ?thesis by simp
  next
    case (assembled a c' w')
    from assembled(2) assms have eq: "c' = catalog" "w' = w3" by simp_all
    let ?w2 = "print_out (''Reading '' @ str_nat (length dirs) @ '' child collections from disk...'')
              (print_out (''Creating STAC Catalog '' @ quoted CATALOG_ID @ ''...'') w)"
    let ?c0 = "\<lparr>stac_id = CATALOG_ID, self_href = Some a, links = []\<rparr>"
    have w3: "w3 = snd (attach_children lib out (sort dirs) (?c0, ?w2))"
      using assembled(3) eq by (metis attach_loop_def snd_conv)
    obtain ls where "snd (attach_children lib out (sort dirs) (?c0, ?w2))
                       = ?w2\<lparr>stdout := stdout ?w2 @ ls\<rparr>"
      using attach_children_lines [of lib out "sort dirs" ?c0 ?w2] by blast
    with w3 have "files w3 = files w \<and> stderr w3 = stderr w" by simp
    with assembled(1) show ?thesis by blast
  qed
  then show "files w3 = files w" and "stderr w3 = stderr w"
    and "\<exists>a. make_absolute_href lib (path_div lib out ''catalog.json'') = Inr a"
    by simp_all
qed

lemma reanchor_frame:
  "q \<noteq> abspath lib cp \<Longrightarrow> files (snd (reanchor lib cp w)) q = files w q"
  by (simp add: reanchor_def Let_def save_object_def set_self_href_url split: sum.splits)

lemma reanchor_root:
  "make_absolute_href lib cp = Inr a \<Longrightarrow> files w (abspath lib cp) = Some (Stac d) \<Longrightarrow>
   fst (reanchor lib cp w) = None \<and>
   files (snd (reanchor lib cp w)) (abspath lib cp)
     = Some (Stac (to_dict lib (d\<lparr>self_href := Some CATALOG_PUBLISHED_URL\<rparr>)))"
  by (simp add: reanchor_def Let_def save_object_def from_file_local set_self_href_url)




lemma builder_cases:
  obtains (setup_raised) e w1 where
      "assemble lib out dirs w = (Inl e, w1)"
      "create_and_save_catalog lib out dirs w = (Some e, w1)"
  | (save_raised) catalog w3 e w7 where
      "assemble lib out dirs w = (Inr catalog, w3)"
      "fst (save lib catalog (files w)) = Some e"
      "create_and_save_catalog lib out dirs w = (Some e, w7)"
      "files w7 = snd (save lib catalog (files w))"
      "stderr w7 = stderr w"
      "stdout w7 = stdout w3
         @ [[CHR 0x0A] @ ''Validating catalog and all children/items ''
              @ ''(this may take a moment)...'',
            ''Validation successful!'',
            [CHR 0x0A] @ ''Saving catalog as SELF_CONTAINED '' @ ''to create relative links...'']"
  | (reanchored) catalog w3 w7 r8 w8 where
      "assemble lib out dirs w = (Inr catalog, w3)"
      "fst (save lib catalog (files w)) = None"
      "files w7 = snd (save lib catalog (files w))"
      "stderr w7 = stderr w"
      "stdout w7 = stdout w3
         @ [[CHR 0x0A] @ ''Validating catalog and all children/items ''
              @ ''(this may take a moment)...'',
            ''Validation successful!'',
            [CHR 0x0A] @ ''Saving catalog as SELF_CONTAINED '' @ ''to create relative links...'']"
      "reanchor lib (path_div lib out ''catalog.json'') w7 = (r8, w8)"
      "create_and_save_catalog lib out dirs w = (r8, w8)
       \<or> create_and_save_catalog lib out dirs w =
            (r8, print_out ([CHR 0x0A] @ ''Successfully saved RELATIVE PUBLISHED catalog to: ''
                             @ path_div lib out ''catalog.json'') w8)"
proof (cases "assemble lib out dirs w")
  case (Pair r w3)
  show thesis
  proof (cases r)
    case (Inl e)
    with Pair have a: "assemble lib out dirs w = (Inl e, w3)" by simp
    then have "create_and_save_catalog lib out dirs w = (Some e, w3)"
      by (simp add: create_and_save_catalog_def create_and_save_catalog_with_def)
    with a show thesis by (rule setup_raised)
  next
    case (Inr catalog)
    with Pair have a: "assemble lib out dirs w = (Inr catalog, w3)" by simp
    note fs = assemble_Inr(1) [OF a] and se = assemble_Inr(2) [OF a]
    define w7 where "w7 =
       (print_out ([CHR 0x0A] @ ''Saving catalog as SELF_CONTAINED ''
                       @ ''to create relative links...'')
            (print_out ''Validation successful!''
              (print_out ([CHR 0x0A] @ ''Validating catalog and all children/items ''
                           @ ''(this may take a moment)...'') w3)))
          \<lparr>files := snd (save lib catalog (files w))\<rparr>"
    have f: "files w7 = snd (save lib catalog (files w))"
      by (simp add: w7_def)
    have e: "stderr w7 = stderr w"
      by (simp add: w7_def se)
    have o: "stdout w7 = stdout w3
         @ [[CHR 0x0A] @ ''Validating catalog and all children/items ''
              @ ''(this may take a moment)...'',
            ''Validation successful!'',
            [CHR 0x0A] @ ''Saving catalog as SELF_CONTAINED '' @ ''to create relative links...'']"
      by (simp add: w7_def)
    have u: "create_and_save_catalog lib out dirs w =
       (case fst (save lib catalog (files w)) of
          Some e \<Rightarrow> (Some e, w7)
        | None \<Rightarrow>
            (case reanchor lib (path_div lib out ''catalog.json'') w7 of
               (Some e, w8) \<Rightarrow> (Some e, w8)
             | (None, w8) \<Rightarrow>
                 (None, print_out ([CHR 0x0A] @ ''Successfully saved RELATIVE PUBLISHED catalog to: ''
                                    @ path_div lib out ''catalog.json'') w8)))"
      unfolding w7_def
      by (simp add: create_and_save_catalog_def create_and_save_catalog_with_def Let_def a fs
            cong: option.case_cong prod.case_cong)
    show thesis
    proof (cases "fst (save lib catalog (files w))")
      case (Some x)
      with u have c: "create_and_save_catalog lib out dirs w = (Some x, w7)" by simp
      show thesis by (rule save_raised [OF a Some c f e o])
    next
      case None
      obtain r8 w8 where p: "reanchor lib (path_div lib out ''catalog.json'') w7 = (r8, w8)"
        by (cases "reanchor lib (path_div lib out ''catalog.json'') w7")
      have d: "create_and_save_catalog lib out dirs w = (r8, w8)
         \<or> create_and_save_catalog lib out dirs w =
              (r8, print_out ([CHR 0x0A] @ ''Successfully saved RELATIVE PUBLISHED catalog to: ''
                               @ path_div lib out ''catalog.json'') w8)"
        using u None p by (cases r8) simp_all
      show thesis by (rule reanchored [OF a None f e o p d])
    qed
  qed
qed

text \<open>
  Claim C1. When the builder has got past line 126 and the loop (\<open>assemble\<close> gives a
  catalog), the save phase has ended without an exception and has left a root document
  that loads at the catalog's path, the builder returns normally, and in the files it
  leaves: the root document's self href is exactly \<open>CATALOG_PUBLISHED_URL\<close>; every file
  other than the root document is as the save phase left it, so the re-anchor phase
  writes the root document only, at the path it was read from; and every property that
  the links of all non-root documents had after the save phase (\<open>relative\<close>: any
  property of an href, being a relative href among them) still holds of the links of
  all non-root documents.
\<close>

theorem anchored_root:
  assumes asm: "assemble lib out dirs w = (Inr catalog, w3)"
    and saved: "fst (save lib catalog (files w)) = None"
    and root: "snd (save lib catalog (files w))
                 (abspath lib (path_div lib out ''catalog.json'')) = Some (Stac d)"
  shows "fst (create_and_save_catalog lib out dirs w) = None
   \<and> (\<exists>d'. files (snd (create_and_save_catalog lib out dirs w))
               (abspath lib (path_div lib out ''catalog.json'')) = Some (Stac d')
           \<and> self_href d' = Some CATALOG_PUBLISHED_URL \<and> stac_id d' = stac_id d)
   \<and> (\<forall>q. q \<noteq> abspath lib (path_div lib out ''catalog.json'') \<longrightarrow>
          files (snd (create_and_save_catalog lib out dirs w)) q
            = snd (save lib catalog (files w)) q)
   \<and> ((\<forall>q d l. q \<noteq> abspath lib (path_div lib out ''catalog.json'')
            \<and> snd (save lib catalog (files w)) q = Some (Stac d)
            \<and> l \<in> set (links d) \<longrightarrow> relative (link_href l))
        \<longrightarrow> (\<forall>q d l. q \<noteq> abspath lib (path_div lib out ''catalog.json'')
            \<and> files (snd (create_and_save_catalog lib out dirs w)) q = Some (Stac d)
            \<and> l \<in> set (links d) \<longrightarrow> relative (link_href l)))"
proof -
  let ?cp = "path_div lib out ''catalog.json''"
  let ?fs = "snd (save lib catalog (files w))"
  let ?B = "create_and_save_catalog lib out dirs w"
  obtain a where abs: "make_absolute_href lib ?cp = Inr a"
    using assemble_Inr(3) [OF asm] by blast
  have main: "fst ?B = None
      \<and> files (snd ?B) (abspath lib ?cp)
          = Some (Stac (to_dict lib (d\<lparr>self_href := Some CATALOG_PUBLISHED_URL\<rparr>)))
      \<and> (\<forall>q. q \<noteq> abspath lib ?cp \<longrightarrow> files (snd ?B) q = ?fs q)"
  proof (cases rule: builder_cases [of lib out dirs w])
    case (setup_raised e w1)
    with asm show ?thesis by simp
  next
    case (save_raised c' w3' e w7)
    with asm saved show ?thesis by simp
  next
    case (reanchored c' w3' w7 r8 w8)
    from reanchored(1) asm have c: "c' = catalog" by simp
    have r: "files w7 (abspath lib ?cp) = Some (Stac d)"
      using reanchored(3) root c by simp
    have w8: "w8 = snd (reanchor lib ?cp w7)" and r8: "r8 = fst (reanchor lib ?cp w7)"
      using reanchored(6) by simp_all
    have r8n: "r8 = None"
      using reanchor_root [OF abs r] r8 by simp
    have rootf: "files w8 (abspath lib ?cp)
                   = Some (Stac (to_dict lib (d\<lparr>self_href := Some CATALOG_PUBLISHED_URL\<rparr>)))"
      using reanchor_root [OF abs r] w8 by simp
    have frame: "\<forall>q. q \<noteq> abspath lib ?cp \<longrightarrow> files w8 q = ?fs q"
      using reanchor_frame [of _ lib ?cp w7] w8 reanchored(3) c by simp
    from reanchored(7) show ?thesis
    proof
      assume "?B = (r8, w8)"
      with r8n rootf frame show ?thesis by simp
    next
      assume "?B = (r8, print_out ([CHR 0x0A] @ ''Successfully saved RELATIVE PUBLISHED catalog to: ''
                             @ path_div lib out ''catalog.json'') w8)"
      with r8n rootf frame show ?thesis by simp
    qed
  qed
  then have a: "fst ?B = None"
    and b: "\<exists>d'. files (snd ?B) (abspath lib ?cp) = Some (Stac d')
           \<and> self_href d' = Some CATALOG_PUBLISHED_URL \<and> stac_id d' = stac_id d"
    and c: "\<forall>q. q \<noteq> abspath lib ?cp \<longrightarrow> files (snd ?B) q = ?fs q"
    by (simp_all add: to_dict_def)
  have e: "(\<forall>q d l. q \<noteq> abspath lib ?cp \<and> ?fs q = Some (Stac d) \<and> l \<in> set (links d)
               \<longrightarrow> relative (link_href l))
        \<longrightarrow> (\<forall>q d l. q \<noteq> abspath lib ?cp
            \<and> files (snd ?B) q = Some (Stac d)
            \<and> l \<in> set (links d) \<longrightarrow> relative (link_href l))"
  proof (intro impI allI)
    fix q d l
    assume h: "\<forall>q d l. q \<noteq> abspath lib ?cp \<and> ?fs q = Some (Stac d) \<and> l \<in> set (links d)
               \<longrightarrow> relative (link_href l)"
      and k: "q \<noteq> abspath lib ?cp
            \<and> files (snd ?B) q = Some (Stac d)
            \<and> l \<in> set (links d)"
    from k c have "?fs q = Some (Stac d)" by metis
    with h k show "relative (link_href l)" by blast
  qed
  from a b c e show ?thesis by blast
qed

text \<open>
  Witness for C1: the example release directory, in which \<open>gcts\<close> is missing and \<open>gctr\<close>
  loads. The root document ends with the public URL as its self href, and the
  collection document of \<open>gctr\<close> is the file it was.
\<close>

theorem anchored_root_witness:
  "fst (create_and_save_catalog example_lib ''release/v1'' [''gcts'', ''gctr''] example_world) = None
   \<and> files (snd (create_and_save_catalog example_lib ''release/v1'' [''gcts'', ''gctr'']
                  example_world)) ''/work/release/v1/catalog.json''
       = Some (Stac \<lparr>stac_id = CATALOG_ID, self_href = Some CATALOG_PUBLISHED_URL,
                      links = [\<lparr>link_rel = ''child'',
                                link_href = ''./gctr/collection.json''\<rparr>]\<rparr>)
   \<and> files (snd (create_and_save_catalog example_lib ''release/v1'' [''gcts'', ''gctr'']
                  example_world)) ''/work/release/v1/gctr/collection.json''
       = files example_world ''/work/release/v1/gctr/collection.json''"
proof -
  let ?dirs = "[''gcts'', ''gctr'']"
  let ?c = "\<lparr>stac_id = CATALOG_ID, self_href = Some ''/work/release/v1/catalog.json'',
             links = [\<lparr>link_rel = ''child'', link_href = ''./gctr/collection.json''\<rparr>]\<rparr>"
  have "fst (assemble example_lib ''release/v1'' ?dirs example_world) = Inr ?c"
    by code_simp
  then have a: "assemble example_lib ''release/v1'' ?dirs example_world
                  = (Inr ?c, snd (assemble example_lib ''release/v1'' ?dirs example_world))"
    by (simp add: prod_eq_iff)
  have s: "fst (save example_lib ?c (files example_world)) = None"
    by code_simp
  have r: "snd (save example_lib ?c (files example_world))
             (abspath example_lib (path_div example_lib ''release/v1'' ''catalog.json''))
           = Some (Stac (?c\<lparr>self_href := None\<rparr>))"
    by code_simp
  have p: "abspath example_lib (path_div example_lib ''release/v1'' ''catalog.json'')
             = ''/work/release/v1/catalog.json''"
    by code_simp
  have g: "snd (save example_lib ?c (files example_world)) ''/work/release/v1/gctr/collection.json''
             = files example_world ''/work/release/v1/gctr/collection.json''"
    by code_simp
  have root: "files (snd (create_and_save_catalog example_lib ''release/v1'' ?dirs
                  example_world)) ''/work/release/v1/catalog.json''
       = Some (Stac \<lparr>stac_id = CATALOG_ID, self_href = Some CATALOG_PUBLISHED_URL,
                      links = [\<lparr>link_rel = ''child'',
                                link_href = ''./gctr/collection.json''\<rparr>]\<rparr>)"
    by code_simp
  from anchored_root [OF a s r] p g root show ?thesis
    by simp
qed



text \<open>
  Claim C10. If the collection document of a name loads and \<^verbatim>\<open>add_child\<close> raises on
  it, the iteration prints the warning with the path and the exception's message and
  leaves the catalog as it was, and the loop goes on with the remaining names from
  that catalog.
\<close>

theorem attach_failure_is_skipped:
  assumes "from_file lib (files w) (collection_path lib out n) = Inr child"
    and "add_child lib c child = Inl m"
  shows "attach_one lib out n (c, w)
           = (c, print_out (''  - Warning: Could not process '' @ collection_path lib out n
                             @ ''. Error: '' @ m @ ''. Skipping.'') w)
   \<and> attach_children lib out (n # ns) (c, w)
       = attach_children lib out ns
           (c, print_out (''  - Warning: Could not process '' @ collection_path lib out n
                           @ ''. Error: '' @ m @ ''. Skipping.'') w)"
  using attach_one_attach_failed [OF assms] by simp

text \<open>
  Witness for C10: in the example release directory the collection \<open>anon\<close> loads and
  cannot be attached; the catalog after \<open>anon\<close> and \<open>gctr\<close> is the catalog after \<open>gctr\<close>
  alone.
\<close>

theorem attach_failure_is_skipped_witness:
  "from_file example_lib (files example_world) (collection_path example_lib ''release/v1'' ''anon'')
     = Inr \<lparr>stac_id = [], self_href = Some ''/work/release/v1/anon/collection.json'', links = []\<rparr>
   \<and> attach_one example_lib ''release/v1'' ''anon''
        (\<lparr>stac_id = CATALOG_ID, self_href = Some ''/work/release/v1/catalog.json'', links = []\<rparr>,
         example_world)
       = (\<lparr>stac_id = CATALOG_ID, self_href = Some ''/work/release/v1/catalog.json'', links = []\<rparr>,
          print_out (''  - Warning: Could not process release/v1/anon/collection.json. ''
                      @ ''Error: collection has no id. Skipping.'') example_world)
   \<and> fst (attach_children example_lib ''release/v1'' [''anon'', ''gctr'']
             (\<lparr>stac_id = CATALOG_ID, self_href = Some ''/work/release/v1/catalog.json'',
               links = []\<rparr>, example_world))
       = fst (attach_children example_lib ''release/v1'' [''gctr'']
                (\<lparr>stac_id = CATALOG_ID, self_href = Some ''/work/release/v1/catalog.json'',
                  links = []\<rparr>, example_world))"
proof -
  let ?child = "\<lparr>stac_id = [], self_href = Some ''/work/release/v1/anon/collection.json'',
                 links = []\<rparr>"
  let ?empty = "\<lparr>stac_id = CATALOG_ID, self_href = Some ''/work/release/v1/catalog.json'',
              links = []\<rparr>"
  have a: "from_file example_lib (files example_world)
             (collection_path example_lib ''release/v1'' ''anon'') = Inr ?child"
    by code_simp
  have b: "add_child example_lib ?empty ?child = Inl ''collection has no id''"
    by code_simp
  have c: "collection_path example_lib ''release/v1'' ''anon'' = ''release/v1/anon/collection.json''"
    by code_simp
  have d: "fst (attach_children example_lib ''release/v1'' [''anon'', ''gctr''] (?empty, example_world))
       = fst (attach_children example_lib ''release/v1'' [''gctr''] (?empty, example_world))"
    by code_simp
  from attach_failure_is_skipped [OF a b, of "[''gctr'']"] a c d show ?thesis
    by simp
qed

text \<open>
  Claim C6. When the builder has reached the \<^verbatim>\<open>try\<close> statement (\<open>assemble\<close> gives a
  catalog) and the statement in its body raises an exception \<open>e\<close>, the builder prints
  \<open>Validation failed: e\<close> to the error stream and returns normally: no file is written,
  nothing is printed to the output stream after the line that announces the
  validation, and the exit status of the script is 0, as for a run that saved the
  catalog.
\<close>

theorem validation_failure_returns_early:
  assumes "assemble lib out dirs w = (Inr catalog, w3)"
    and "line_147 catalog = Some e"
  shows "fst (create_and_save_catalog_with line_147 lib out dirs w) = None
   \<and> exit_status (fst (create_and_save_catalog_with line_147 lib out dirs w)) = 0
   \<and> files (snd (create_and_save_catalog_with line_147 lib out dirs w)) = files w
   \<and> stderr (snd (create_and_save_catalog_with line_147 lib out dirs w))
       = stderr w @ [''Validation failed: '' @ str_exn e]
   \<and> stdout (snd (create_and_save_catalog_with line_147 lib out dirs w))
       = stdout w3
         @ [[CHR 0x0A] @ ''Validating catalog and all children/items ''
              @ ''(this may take a moment)...'']"
  using assms assemble_Inr(1) [OF assms(1)] assemble_Inr(2) [OF assms(1)]
  by (simp add: create_and_save_catalog_with_def Let_def exit_status_def)

text \<open>Witness for C6: a statement at line 147 that raises on every catalog.\<close>

theorem validation_failure_returns_early_witness:
  "fst (create_and_save_catalog_with (\<lambda>catalog. Some (Exception ''catalog is invalid''))
          example_lib ''release/v1'' [''gcts'', ''gctr''] example_world) = None
   \<and> files (snd (create_and_save_catalog_with (\<lambda>catalog. Some (Exception ''catalog is invalid''))
                  example_lib ''release/v1'' [''gcts'', ''gctr''] example_world))
       = files example_world
   \<and> stderr (snd (create_and_save_catalog_with (\<lambda>catalog. Some (Exception ''catalog is invalid''))
                  example_lib ''release/v1'' [''gcts'', ''gctr''] example_world))
       = [''Validation failed: catalog is invalid'']"
proof -
  let ?c = "\<lparr>stac_id = CATALOG_ID, self_href = Some ''/work/release/v1/catalog.json'',
             links = [\<lparr>link_rel = ''child'', link_href = ''./gctr/collection.json''\<rparr>]\<rparr>"
  have "fst (assemble example_lib ''release/v1'' [''gcts'', ''gctr''] example_world) = Inr ?c"
    by code_simp
  then have a: "assemble example_lib ''release/v1'' [''gcts'', ''gctr''] example_world
                  = (Inr ?c, snd (assemble example_lib ''release/v1'' [''gcts'', ''gctr'']
                                    example_world))"
    by (simp add: prod_eq_iff)
  have e: "stderr example_world = []"
    by (simp add: example_world_def)
  from validation_failure_returns_early
    [OF a, of "\<lambda>catalog. Some (Exception ''catalog is invalid'')"
       "Exception ''catalog is invalid''"] e
  show ?thesis by simp
qed


lemma make_absolute_href_validate_all [simp]:
  "make_absolute_href (lib\<lparr>validate_all := v\<rparr>) = make_absolute_href lib"
  by (simp add: make_absolute_href_def fun_eq_iff split: sum.splits)

lemma from_file_validate_all [simp]: "from_file (lib\<lparr>validate_all := v\<rparr>) = from_file lib"
  by (simp add: from_file_def fun_eq_iff split: sum.splits option.splits disk_file.splits)

lemma set_self_href_validate_all [simp]:
  "set_self_href (lib\<lparr>validate_all := v\<rparr>) = set_self_href lib"
  by (simp add: set_self_href_def fun_eq_iff split: sum.splits)

lemma attach_one_validate_all [simp]:
  "attach_one (lib\<lparr>validate_all := v\<rparr>) = attach_one lib"
  by (simp add: attach_one_def collection_path_def fun_eq_iff Let_def split: sum.splits exn.splits)

lemma attach_children_validate_all [simp]:
  "attach_children (lib\<lparr>validate_all := v\<rparr>) out ns cw = attach_children lib out ns cw"
  by (induction ns arbitrary: cw) simp_all

lemma assemble_validate_all [simp]:
  "assemble (lib\<lparr>validate_all := v\<rparr>) out dirs w = assemble lib out dirs w"
  by (simp add: assemble_def attach_loop_def new_catalog_def Let_def split: sum.splits)

lemma reanchor_validate_all [simp]:
  "reanchor (lib\<lparr>validate_all := v\<rparr>) cp w = reanchor lib cp w"
  by (simp add: reanchor_def save_object_def to_dict_def Let_def split: sum.splits)








section \<open>The validator\<close>

lemma validation_failed_fields [simp]:
  "fst (validation_failed e w) = 1"
  "files (snd (validation_failed e w)) = files w"
  "stdout (snd (validation_failed e w)) = stdout w"
  "stderr (snd (validation_failed e w))
     = stderr w @ [[CHR 0x0A] @ ''Validation failed.'', ''Error: '' @ str_exn e]"
  by (simp_all add: validation_failed_def)

lemma scan_unknown_only:
  "list_all (\<lambda>a. a \<noteq> ''--'' \<and> parse_optional lib a = ArgUnknown) xs
     \<Longrightarrow> scan lib False pos extras xs = Parsed pos (extras @ xs)"
  by (induction xs arbitrary: extras) simp_all

lemma scan_after_path:
  "list_all (\<lambda>a. a \<noteq> ''--'' \<and> (parse_optional lib a = ArgPositional
                                  \<or> parse_optional lib a = ArgUnknown)) xs
     \<Longrightarrow> scan lib False (Some p) extras xs = Parsed (Some p) (extras @ xs)"
  by (induction xs arbitrary: extras) auto

lemma scan_path_first:
  assumes "p \<noteq> ''--''" and "parse_optional lib p = ArgPositional"
    and "list_all (\<lambda>a. a \<noteq> ''--'' \<and> (parse_optional lib a = ArgPositional
                                       \<or> parse_optional lib a = ArgUnknown)) xs"
  shows "scan lib False None [] (p # xs) = Parsed (Some p) xs"
proof (cases xs)
  case Nil
  with assms show ?thesis by simp
next
  case (Cons b bs)
  with assms have "b \<noteq> ''--''" by simp
  with assms Cons have "scan lib False None [] (p # xs) = scan lib False (Some p) [] xs"
    by simp
  with scan_after_path [OF assms(3), of p "[]"] show ?thesis by simp
qed

lemma main_usage_error:
  assumes "scan lib False None [] args = Parsed pos extras" and "pos = None \<or> extras \<noteq> []"
  shows "main lib prog args w =
           (2, w\<lparr>stderr := stderr w @
                   [usage prog,
                    prog @ '': error: '' @
                      (if pos = None then ''the following arguments are required: catalog_path''
                       else ''unrecognized arguments: '' @ unwords extras)]\<rparr>)"
  using assms by (cases pos) (simp_all add: main_def parse_args_def)

text \<open>
  Claim C5. For every command line that the parser reads as one catalog path \<open>p\<close>: if
  the root document loads and \<^verbatim>\<open>validate_all\<close> raises nothing, the validator prints
  the success messages, prints nothing to the error stream and exits with status 0; if
  the root document fails to load with an exception \<open>e\<close>, or it loads and
  \<^verbatim>\<open>validate_all\<close> raises \<open>e\<close> (for any node of the tree, a child link to a missing
  file included), it prints \<open>Validation failed.\<close> and \<open>Error: e\<close> to the error stream,
  prints no success message and exits with status 1. No file is changed.
\<close>

theorem validator_exit_status:
  assumes "parse_args lib prog args = Namespace p"
  shows "(\<forall>c. from_file lib (files w) p = Inr c \<and> validate_all lib (files w) c = None \<longrightarrow>
            fst (main lib prog args w) = 0
            \<and> stderr (snd (main lib prog args w)) = stderr w
            \<and> stdout (snd (main lib prog args w))
                = stdout w @ [''Attempting to read catalog from: '' @ p,
                              ''Successfully read catalog '' @ quoted (stac_id c) @ ''.'',
                              ''Starting recursive validation of all collections and items...'',
                              [CHR 0x0A] @ ''Validation successful!'',
                              ''The STAC catalog and all its children are valid.''])
   \<and> (\<forall>e. from_file lib (files w) p = Inl e \<longrightarrow>
            fst (main lib prog args w) = 1
            \<and> stderr (snd (main lib prog args w))
                = stderr w @ [[CHR 0x0A] @ ''Validation failed.'', ''Error: '' @ str_exn e]
            \<and> stdout (snd (main lib prog args w))
                = stdout w @ [''Attempting to read catalog from: '' @ p])
   \<and> (\<forall>c e. from_file lib (files w) p = Inr c \<and> validate_all lib (files w) c = Some e \<longrightarrow>
            fst (main lib prog args w) = 1
            \<and> stderr (snd (main lib prog args w))
                = stderr w @ [[CHR 0x0A] @ ''Validation failed.'', ''Error: '' @ str_exn e]
            \<and> stdout (snd (main lib prog args w))
                = stdout w @ [''Attempting to read catalog from: '' @ p,
                              ''Successfully read catalog '' @ quoted (stac_id c) @ ''.'',
                              ''Starting recursive validation of all collections and items...''])
   \<and> files (snd (main lib prog args w)) = files w"
proof (intro conjI allI impI)
  fix c
  assume h: "from_file lib (files w) p = Inr c \<and> validate_all lib (files w) c = None"
  with assms show "fst (main lib prog args w) = 0" by (simp add: main_def Let_def)
  from h assms show "stderr (snd (main lib prog args w)) = stderr w"
    by (simp add: main_def Let_def)
  from h assms show "stdout (snd (main lib prog args w))
                = stdout w @ [''Attempting to read catalog from: '' @ p,
                              ''Successfully read catalog '' @ quoted (stac_id c) @ ''.'',
                              ''Starting recursive validation of all collections and items...'',
                              [CHR 0x0A] @ ''Validation successful!'',
                              ''The STAC catalog and all its children are valid.'']"
    by (simp add: main_def Let_def)
next
  fix e
  assume h: "from_file lib (files w) p = Inl e"
  with assms show "fst (main lib prog args w) = 1" by (simp add: main_def Let_def)
  from h assms show "stderr (snd (main lib prog args w))
                = stderr w @ [[CHR 0x0A] @ ''Validation failed.'', ''Error: '' @ str_exn e]"
    by (simp add: main_def Let_def)
  from h assms show "stdout (snd (main lib prog args w))
                = stdout w @ [''Attempting to read catalog from: '' @ p]"
    by (simp add: main_def Let_def)
next
  fix c e
  assume h: "from_file lib (files w) p = Inr c \<and> validate_all lib (files w) c = Some e"
  with assms show "fst (main lib prog args w) = 1" by (simp add: main_def Let_def)
  from h assms show "stderr (snd (main lib prog args w))
                = stderr w @ [[CHR 0x0A] @ ''Validation failed.'', ''Error: '' @ str_exn e]"
    by (simp add: main_def Let_def)
  from h assms show "stdout (snd (main lib prog args w))
                = stdout w @ [''Attempting to read catalog from: '' @ p,
                              ''Successfully read catalog '' @ quoted (stac_id c) @ ''.'',
                              ''Starting recursive validation of all collections and items...'']"
    by (simp add: main_def Let_def)
next
  show "files (snd (main lib prog args w)) = files w"
    using assms by (simp add: main_def Let_def split: sum.splits option.splits)
qed

text \<open>
  Witness for C5: the root document that the builder leaves in the example release
  directory validates (status 0); a root document with a child link to the missing
  \<open>gcts\<close> collection does not (status 1, with the error on the error stream); and with
  no root document at all the status is 1.
\<close>

theorem validator_exit_status_witness:
  "fst (main example_lib ''validate_catalog.py'' [''release/v1/catalog.json'']
          (snd (create_and_save_catalog example_lib ''release/v1'' [''gcts'', ''gctr'']
                  example_world))) = 0
   \<and> fst (main example_lib ''validate_catalog.py'' [''release/v1/catalog.json'']
            (example_world\<lparr>files := (files example_world)
               (''/work/release/v1/catalog.json'' \<mapsto>
                  Stac \<lparr>stac_id = CATALOG_ID, self_href = None,
                        links = [\<lparr>link_rel = ''child'',
                                  link_href = ''./gcts/collection.json''\<rparr>]\<rparr>)\<rparr>)) = 1
   \<and> stderr (snd (main example_lib ''validate_catalog.py'' [''release/v1/catalog.json'']
            (example_world\<lparr>files := (files example_world)
               (''/work/release/v1/catalog.json'' \<mapsto>
                  Stac \<lparr>stac_id = CATALOG_ID, self_href = None,
                        links = [\<lparr>link_rel = ''child'',
                                  link_href = ''./gcts/collection.json''\<rparr>]\<rparr>)\<rparr>)))
       = [[CHR 0x0A] @ ''Validation failed.'',
          ''Error: [Errno 2] No such file or directory: '' @ quoted ''./gcts/collection.json'']
   \<and> fst (main example_lib ''validate_catalog.py'' [''release/v1/catalog.json'']
            example_world) = 1"
proof -
  let ?ok = "snd (create_and_save_catalog example_lib ''release/v1'' [''gcts'', ''gctr'']
                  example_world)"
  let ?root = "\<lparr>stac_id = CATALOG_ID, self_href = None,
                links = [\<lparr>link_rel = ''child'', link_href = ''./gcts/collection.json''\<rparr>]\<rparr>"
  let ?bad = "example_world\<lparr>files := (files example_world)
               (''/work/release/v1/catalog.json'' \<mapsto> Stac ?root)\<rparr>"
  have p: "parse_args example_lib ''validate_catalog.py'' [''release/v1/catalog.json'']
             = Namespace ''release/v1/catalog.json''"
    by code_simp
  have l1: "from_file example_lib (files ?ok) ''release/v1/catalog.json''
              = Inr \<lparr>stac_id = CATALOG_ID, self_href = Some ''/work/release/v1/catalog.json'',
                     links = [\<lparr>link_rel = ''child'',
                               link_href = ''./gctr/collection.json''\<rparr>]\<rparr>"
    by code_simp
  have v1: "validate_all example_lib (files ?ok)
              \<lparr>stac_id = CATALOG_ID, self_href = Some ''/work/release/v1/catalog.json'',
                     links = [\<lparr>link_rel = ''child'',
                               link_href = ''./gctr/collection.json''\<rparr>]\<rparr> = None"
    by code_simp
  have l2: "from_file example_lib (files ?bad) ''release/v1/catalog.json''
              = Inr (?root\<lparr>self_href := Some ''/work/release/v1/catalog.json''\<rparr>)"
    by code_simp
  have v2: "validate_all example_lib (files ?bad)
              (?root\<lparr>self_href := Some ''/work/release/v1/catalog.json''\<rparr>)
              = Some (FileNotFoundError (no_such_file ''./gcts/collection.json''))"
    by code_simp
  have l3: "from_file example_lib (files example_world) ''release/v1/catalog.json''
              = Inl (FileNotFoundError (no_such_file ''/work/release/v1/catalog.json''))"
    by code_simp
  have e: "stderr ?bad = []"
    by (simp add: example_world_def)
  have a: "fst (main example_lib ''validate_catalog.py'' [''release/v1/catalog.json''] ?ok) = 0"
    using validator_exit_status [OF p, of ?ok] l1 v1 by simp
  have b: "fst (main example_lib ''validate_catalog.py'' [''release/v1/catalog.json''] ?bad) = 1
           \<and> stderr (snd (main example_lib ''validate_catalog.py'' [''release/v1/catalog.json'']
                            ?bad))
               = [[CHR 0x0A] @ ''Validation failed.'',
                  ''Error: [Errno 2] No such file or directory: ''
                    @ quoted ''./gcts/collection.json'']"
    using validator_exit_status [OF p, of ?bad] l2 v2 e by (simp add: no_such_file_def)
  have c: "fst (main example_lib ''validate_catalog.py'' [''release/v1/catalog.json'']
                  example_world) = 1"
    using validator_exit_status [OF p, of example_world] l3 by simp
  from a b c show ?thesis by simp
qed

text \<open>
  Claim C9. \<open>scan\<close> reads the command line as \<^verbatim>\<open>argparse\<close> does. Whenever it ends with
  no catalog path, or with a catalog path and arguments left over, the validator ends
  with status 2 and has printed the usage and the parser's message to the error
  stream: the outcome is this for every library and whatever the files are, so nothing
  is loaded or validated, nothing is printed to the output stream, and the lines of
  the handler with status 1 are not printed. The parse ends so on every command line
  of options that the parser does not know only (the empty command line included: no
  catalog path), and on every command line that starts with a positional argument and
  goes on with at least one more argument, each positional or an unknown option
  (arguments left over). The help option is the exception: where \<open>scan\<close> meets it, the
  parse ends there, with the help and status 0 or with another message.
\<close>

theorem usage_error_exits_2:
  "(\<forall>pos extras. scan lib False None [] args = Parsed pos extras \<and> (pos = None \<or> extras \<noteq> [])
      \<longrightarrow> main lib prog args w =
           (2, w\<lparr>stderr := stderr w @
                   [usage prog,
                    prog @ '': error: '' @
                      (if pos = None then ''the following arguments are required: catalog_path''
                       else ''unrecognized arguments: '' @ unwords extras)]\<rparr>))
   \<and> (list_all (\<lambda>a. a \<noteq> ''--'' \<and> parse_optional lib a = ArgUnknown) args
      \<longrightarrow> main lib prog args w =
           (2, w\<lparr>stderr := stderr w @
                   [usage prog,
                    prog @ '': error: the following arguments are required: catalog_path'']\<rparr>))
   \<and> (\<forall>p xs. args = p # xs \<and> xs \<noteq> [] \<and> p \<noteq> ''--'' \<and> parse_optional lib p = ArgPositional
         \<and> list_all (\<lambda>a. a \<noteq> ''--'' \<and> (parse_optional lib a = ArgPositional
                                          \<or> parse_optional lib a = ArgUnknown)) xs
      \<longrightarrow> main lib prog args w =
           (2, w\<lparr>stderr := stderr w @
                   [usage prog,
                    prog @ '': error: unrecognized arguments: '' @ unwords xs]\<rparr>))"
proof (intro conjI allI impI)
  fix pos extras
  assume "scan lib False None [] args = Parsed pos extras \<and> (pos = None \<or> extras \<noteq> [])"
  then show "main lib prog args w =
           (2, w\<lparr>stderr := stderr w @
                   [usage prog,
                    prog @ '': error: '' @
                      (if pos = None then ''the following arguments are required: catalog_path''
                       else ''unrecognized arguments: '' @ unwords extras)]\<rparr>)"
    using main_usage_error [of lib args pos extras prog w] by blast
next
  assume "list_all (\<lambda>a. a \<noteq> ''--'' \<and> parse_optional lib a = ArgUnknown) args"
  then have "scan lib False None [] args = Parsed None args"
    using scan_unknown_only [of lib args None "[]"] by simp
  then show "main lib prog args w =
           (2, w\<lparr>stderr := stderr w @
                   [usage prog,
                    prog @ '': error: the following arguments are required: catalog_path'']\<rparr>)"
    using main_usage_error [of lib args None args prog w] by simp
next
  fix p xs
  assume h: "args = p # xs \<and> xs \<noteq> [] \<and> p \<noteq> ''--'' \<and> parse_optional lib p = ArgPositional
         \<and> list_all (\<lambda>a. a \<noteq> ''--'' \<and> (parse_optional lib a = ArgPositional
                                          \<or> parse_optional lib a = ArgUnknown)) xs"
  then have "scan lib False None [] args = Parsed (Some p) xs"
    using scan_path_first [of p lib xs] by simp
  then show "main lib prog args w =
           (2, w\<lparr>stderr := stderr w @
                   [usage prog,
                    prog @ '': error: unrecognized arguments: '' @ unwords xs]\<rparr>)"
    using main_usage_error [of lib args "Some p" xs prog w] h by simp
qed

text \<open>
  Witness for C9: no argument; an unknown option alone; a path and an unknown option;
  three positional arguments; and an unknown option before the path, where the parse
  ends with the path and the option left over.
\<close>

theorem usage_error_exits_2_witness:
  "main example_lib ''validate_catalog.py'' [] example_world
     = (2, example_world\<lparr>stderr :=
              [''usage: validate_catalog.py [-h] catalog_path'',
               ''validate_catalog.py: error: the following arguments are required: catalog_path'']\<rparr>)
   \<and> main example_lib ''validate_catalog.py'' [''--bogus''] example_world
     = (2, example_world\<lparr>stderr :=
              [''usage: validate_catalog.py [-h] catalog_path'',
               ''validate_catalog.py: error: the following arguments are required: catalog_path'']\<rparr>)
   \<and> main example_lib ''validate_catalog.py'' [''a'', ''--bogus''] example_world
     = (2, example_world\<lparr>stderr :=
              [''usage: validate_catalog.py [-h] catalog_path'',
               ''validate_catalog.py: error: unrecognized arguments: --bogus'']\<rparr>)
   \<and> main example_lib ''validate_catalog.py'' [''a.json'', ''b.json'', ''c''] example_world
     = (2, example_world\<lparr>stderr :=
              [''usage: validate_catalog.py [-h] catalog_path'',
               ''validate_catalog.py: error: unrecognized arguments: b.json c'']\<rparr>)
   \<and> main example_lib ''validate_catalog.py'' [''--bogus'', ''a''] example_world
     = (2, example_world\<lparr>stderr :=
              [''usage: validate_catalog.py [-h] catalog_path'',
               ''validate_catalog.py: error: unrecognized arguments: --bogus'']\<rparr>)"
proof -
  have e: "stderr example_world = []"
    by (simp add: example_world_def)
  have u: "parse_optional example_lib ''--bogus'' = ArgUnknown"
    by code_simp
  have pa: "parse_optional example_lib ''a'' = ArgPositional"
    by code_simp
  have pj: "parse_optional example_lib ''a.json'' = ArgPositional"
    by code_simp
  have pb: "parse_optional example_lib ''b.json'' = ArgPositional"
    by code_simp
  have pc: "parse_optional example_lib ''c'' = ArgPositional"
    by code_simp
  have s: "scan example_lib False None [] [''--bogus'', ''a''] = Parsed (Some ''a'') [''--bogus'']"
    by code_simp
  have a: "main example_lib ''validate_catalog.py'' [] example_world
     = (2, example_world\<lparr>stderr :=
              [''usage: validate_catalog.py [-h] catalog_path'',
               ''validate_catalog.py: error: the following arguments are required: catalog_path'']\<rparr>)"
    using usage_error_exits_2 [of example_lib "[]" "''validate_catalog.py''" example_world,
        THEN conjunct2, THEN conjunct1] e
    by (simp add: usage_def)
  have b: "main example_lib ''validate_catalog.py'' [''--bogus''] example_world
     = (2, example_world\<lparr>stderr :=
              [''usage: validate_catalog.py [-h] catalog_path'',
               ''validate_catalog.py: error: the following arguments are required: catalog_path'']\<rparr>)"
    using usage_error_exits_2 [of example_lib "[''--bogus'']" "''validate_catalog.py''"
        example_world, THEN conjunct2, THEN conjunct1] e u
    by (simp add: usage_def)
  have c: "main example_lib ''validate_catalog.py'' [''a'', ''--bogus''] example_world
     = (2, example_world\<lparr>stderr :=
              [''usage: validate_catalog.py [-h] catalog_path'',
               ''validate_catalog.py: error: unrecognized arguments: --bogus'']\<rparr>)"
    using usage_error_exits_2 [of example_lib "[''a'', ''--bogus'']" "''validate_catalog.py''"
        example_world, THEN conjunct2, THEN conjunct2] e u pa
    by (simp add: usage_def)
  have d: "main example_lib ''validate_catalog.py'' [''a.json'', ''b.json'', ''c''] example_world
     = (2, example_world\<lparr>stderr :=
              [''usage: validate_catalog.py [-h] catalog_path'',
               ''validate_catalog.py: error: unrecognized arguments: b.json c'']\<rparr>)"
    using usage_error_exits_2 [of example_lib "[''a.json'', ''b.json'', ''c'']"
        "''validate_catalog.py''" example_world, THEN conjunct2, THEN conjunct2] e pj pb pc
    by (simp add: usage_def)
  have f: "main example_lib ''validate_catalog.py'' [''--bogus'', ''a''] example_world
     = (2, example_world\<lparr>stderr :=
              [''usage: validate_catalog.py [-h] catalog_path'',
               ''validate_catalog.py: error: unrecognized arguments: --bogus'']\<rparr>)"
    using usage_error_exits_2 [of example_lib "[''--bogus'', ''a'']" "''validate_catalog.py''"
        example_world, THEN conjunct1] e s
    by (simp add: usage_def)
  from a b c d f show ?thesis by simp
qed

text \<open>
  The validator invoked with \<^verbatim>\<open>-h\<close> and no catalog path: the parser prints the help to
  the output stream and the process ends with status 0, not 2, and with nothing on the
  error stream. With \<^verbatim>\<open>-h\<close> after a path and an extra argument the outcome is the same.
\<close>

theorem usage_error_exits_2_counterexample:
  "fst (main example_lib ''validate_catalog.py'' [''-h''] example_world) = 0
   \<and> stderr (snd (main example_lib ''validate_catalog.py'' [''-h''] example_world)) = []
   \<and> stdout (snd (main example_lib ''validate_catalog.py'' [''-h''] example_world))
       = [format_help example_lib ''validate_catalog.py'']
   \<and> fst (main example_lib ''validate_catalog.py'' [''a.json'', ''b.json'', ''--help'']
            example_world) = 0"
  by code_simp

end
